theory Spec2Isabelle
  imports Main "HOL-Library.Word"
begin

section \<open>The investdaov2 module: data model\<close>

text \<open>
  The Move module \<open>dao_addr::investdaov2\<close> is embedded as functions on an explicit
  \<open>world\<close>: the global storage of the resources the module declares
  (\<open>DAOTreasury\<close>, \<open>DAOMember\<close>), the \<open>CoinStore\<close> balances of \<open>AptosCoin\<close> it moves,
  the ledger clock and the emitted events. An entry function returns \<open>Inr\<close> of the
  new world, or \<open>Inl\<close> of the abort that ends the transaction.
\<close>

type_synonym u64 = "64 word"
type_synonym u8 = "8 word"

text \<open>
  Addresses. \<open>account::create_resource_account\<close> derives the treasury's address from
  the founder's address and the seed by a hash; the derivation is kept symbolic
  (and therefore injective) as the constructor \<open>ResourceAccount\<close>.
\<close>

datatype address = Account nat | ResourceAccount address "u8 list"

text \<open>A \<open>&signer\<close> carries exactly one address; \<open>signer::address_of\<close> reads it.\<close>

datatype signer = Signer address

fun address_of :: "signer \<Rightarrow> address" where
  "address_of (Signer a) = a"

text \<open>Constants of the module.\<close>

abbreviation (input) VOTING_PERIOD :: u64 where "VOTING_PERIOD \<equiv> 604800"
abbreviation (input) EXECUTION_DELAY :: u64 where "EXECUTION_DELAY \<equiv> 86400"
abbreviation (input) QUORUM_PERCENTAGE :: u64 where "QUORUM_PERCENTAGE \<equiv> 20"
abbreviation (input) INITIAL_TOKEN_SUPPLY :: u64 where "INITIAL_TOKEN_SUPPLY \<equiv> 1000000"
abbreviation (input) MIN_PROPOSAL_AMOUNT :: u64 where "MIN_PROPOSAL_AMOUNT \<equiv> 1000"
abbreviation (input) PARTICIPATION_REWARD :: u64 where "PARTICIPATION_REWARD \<equiv> 10"

abbreviation (input) E_NOT_AUTHORIZED :: u64 where "E_NOT_AUTHORIZED \<equiv> 1001"
abbreviation (input) E_PROPOSAL_NOT_OPEN :: u64 where "E_PROPOSAL_NOT_OPEN \<equiv> 1002"
abbreviation (input) E_ALREADY_VOTED :: u64 where "E_ALREADY_VOTED \<equiv> 1003"
abbreviation (input) E_VOTING_ENDED :: u64 where "E_VOTING_ENDED \<equiv> 1004"
abbreviation (input) E_INSUFFICIENT_BALANCE :: u64 where "E_INSUFFICIENT_BALANCE \<equiv> 1005"
abbreviation (input) E_PROPOSAL_NOT_READY :: u64 where "E_PROPOSAL_NOT_READY \<equiv> 1006"
abbreviation (input) E_INSUFFICIENT_TOKENS :: u64 where "E_INSUFFICIENT_TOKENS \<equiv> 1007"
abbreviation (input) E_QUORUM_NOT_MET :: u64 where "E_QUORUM_NOT_MET \<equiv> 1008"
abbreviation (input) E_PROPOSAL_ALREADY_EXECUTED :: u64 where "E_PROPOSAL_ALREADY_EXECUTED \<equiv> 1009"
abbreviation (input) E_INSUFFICIENT_FUNDS :: u64 where "E_INSUFFICIENT_FUNDS \<equiv> 1010"
abbreviation (input) E_DAO_PAUSED :: u64 where "E_DAO_PAUSED \<equiv> 1011"
abbreviation (input) E_PROPOSAL_TOO_SMALL :: u64 where "E_PROPOSAL_TOO_SMALL \<equiv> 1012"
abbreviation (input) E_INVALID_CATEGORY :: u64 where "E_INVALID_CATEGORY \<equiv> 1013"

abbreviation (input) CATEGORY_FUNDING :: u8 where "CATEGORY_FUNDING \<equiv> 0"
abbreviation (input) CATEGORY_GOVERNANCE :: u8 where "CATEGORY_GOVERNANCE \<equiv> 1"
abbreviation (input) CATEGORY_EMERGENCY :: u8 where "CATEGORY_EMERGENCY \<equiv> 2"

text \<open>
  Every way a transaction of the module can abort: an \<open>assert!\<close> of the module with its
  code, a u64 overflow or underflow, \<open>borrow_global\<close> of an absent resource,
  \<open>move_to\<close> over an existing one, the aborts of \<open>std::table\<close> (absent key on
  \<open>borrow\<close>, present key on \<open>add\<close>), those of \<open>aptos_framework::coin\<close> (no
  \<open>CoinStore\<close>, balance below the amount) and that of
  \<open>account::create_resource_account\<close>.
\<close>

datatype error =
    Abort u64
  | ArithmeticError
  | MissingData
  | ResourceAlreadyExists
  | TableEntryNotFound
  | TableEntryAlreadyExists
  | CoinStoreNotPublished
  | CoinInsufficientBalance
  | AccountAlreadyExists

text \<open>The events of the module, one constructor per \<open>#[event]\<close> struct, fields in order.\<close>

datatype event =
    ProposalCreatedEvent u64 address string u8 u64
  | VoteCastEvent u64 address bool u64 u64
  | ProposalExecutedEvent u64 u8 u64
  | FundsDepositedEvent address u64
  | TokensStakedEvent address u64
  | TokensDistributedEvent address u64 string
  | EmergencyActionEvent address string bool

record GovernanceToken =
  balance :: u64
  staked_balance :: u64
  last_claim_time :: u64
  total_earned :: u64

text \<open>
  \<open>status\<close>: 0 Open, 1 Funded, 2 Rejected, 3 Executed, 4 QuorumNotMet. The field
  \<open>id\<close> of the source is \<open>id_field\<close> here.
\<close>

record InvestmentProposal =
  id_field :: u64
  title :: string
  description :: string
  category :: u8
  recipient :: address
  requested_amount :: u64
  yes_votes :: u64
  no_votes :: u64
  proposer :: address
  creation_time :: u64
  voting_end_time :: u64
  execution_time :: u64
  status :: u8
  voters :: "address \<rightharpoonup> u64"
  executed :: bool

text \<open>\<open>treasury_signer_cap\<close> is the address the capability signs for.\<close>

record DAOTreasury =
  proposals :: "u64 \<rightharpoonup> InvestmentProposal"
  proposal_count :: u64
  total_funds :: u64
  total_governance_tokens :: u64
  staked_tokens :: u64
  admin :: address
  governance_threshold :: u64
  paused :: bool
  treasury_signer_cap :: address

record DAOMember =
  governance_tokens :: GovernanceToken
  proposals_created :: u64
  votes_cast :: u64
  member_since :: u64
  reputation_score :: u64

record world =
  now_seconds :: u64
  accounts :: "address set"
  coin_store :: "address \<rightharpoonup> u64"
  treasury_store :: "address \<rightharpoonup> DAOTreasury"
  member_store :: "address \<rightharpoonup> DAOMember"
  event_log :: "event list"

section \<open>u64 arithmetic and the framework's coin ledger\<close>

text \<open>
  Move aborts on u64 overflow and underflow. Each arithmetic step of the source is a
  guard (\<open>add_ok\<close>, \<open>sub_ok\<close>, \<open>mul_ok\<close>) followed by the word operation, which
  under the guard does not wrap.
\<close>

definition add_ok :: "u64 \<Rightarrow> u64 \<Rightarrow> bool" where
  "add_ok a b \<longleftrightarrow> unat a + unat b < 2 ^ 64"

definition sub_ok :: "u64 \<Rightarrow> u64 \<Rightarrow> bool" where
  "sub_ok a b \<longleftrightarrow> b \<le> a"

definition mul_ok :: "u64 \<Rightarrow> u64 \<Rightarrow> bool" where
  "mul_ok a b \<longleftrightarrow> unat a * unat b < 2 ^ 64"

text \<open>
  \<open>coin::withdraw<AptosCoin>\<close> and \<open>coin::deposit<AptosCoin>\<close> of the Aptos
  framework, on the map of \<open>CoinStore\<close> balances: both need a published store;
  \<open>withdraw\<close> aborts when the balance is below the amount.
\<close>

definition coin_withdraw :: "(address \<rightharpoonup> u64) \<Rightarrow> address \<Rightarrow> u64 \<Rightarrow> error + (address \<rightharpoonup> u64)" where
  "coin_withdraw cs a amount =
     (case cs a of
        None \<Rightarrow> Inl CoinStoreNotPublished
      | Some b \<Rightarrow> if b < amount then Inl CoinInsufficientBalance
                  else Inr (cs(a \<mapsto> b - amount)))"

definition coin_deposit :: "(address \<rightharpoonup> u64) \<Rightarrow> address \<Rightarrow> u64 \<Rightarrow> error + (address \<rightharpoonup> u64)" where
  "coin_deposit cs a amount =
     (case cs a of
        None \<Rightarrow> Inl CoinStoreNotPublished
      | Some b \<Rightarrow> if \<not> add_ok b amount then Inl ArithmeticError
                  else Inr (cs(a \<mapsto> b + amount)))"

text \<open>\<open>coin::register\<close>: publishes an empty store unless one is there already.\<close>

definition coin_register :: "(address \<rightharpoonup> u64) \<Rightarrow> address \<Rightarrow> (address \<rightharpoonup> u64)" where
  "coin_register cs a = (case cs a of None \<Rightarrow> cs(a \<mapsto> 0) | Some b \<Rightarrow> cs)"

text \<open>Writing a resource, a table entry or an event back into the world.\<close>

definition put_treasury :: "world \<Rightarrow> address \<Rightarrow> DAOTreasury \<Rightarrow> world" where
  "put_treasury w a t = w\<lparr>treasury_store := (treasury_store w)(a \<mapsto> t)\<rparr>"

definition put_member :: "world \<Rightarrow> address \<Rightarrow> DAOMember \<Rightarrow> world" where
  "put_member w a m = w\<lparr>member_store := (member_store w)(a \<mapsto> m)\<rparr>"

definition put_proposal :: "DAOTreasury \<Rightarrow> u64 \<Rightarrow> InvestmentProposal \<Rightarrow> DAOTreasury" where
  "put_proposal t i p = t\<lparr>proposals := (proposals t)(i \<mapsto> p)\<rparr>"

definition emit :: "world \<Rightarrow> event \<Rightarrow> world" where
  "emit w e = w\<lparr>event_log := event_log w @ [e]\<rparr>"

section \<open>Entry functions\<close>

text \<open>
  \<open>execute_proposal\<close>. The signer (\<open>_account\<close> in the source) is a parameter
  and is not read. The three assertions come in the source's order: status, executed
  flag, execution time.
\<close>

definition execute_proposal :: "world \<Rightarrow> signer \<Rightarrow> address \<Rightarrow> u64 \<Rightarrow> error + world" where
  "execute_proposal w unused_account dao_treasury_address proposal_id =
     (case treasury_store w dao_treasury_address of
        None \<Rightarrow> Inl MissingData
      | Some treasury \<Rightarrow>
     (case proposals treasury proposal_id of
        None \<Rightarrow> Inl TableEntryNotFound
      | Some proposal \<Rightarrow>
        if status proposal \<noteq> 0 then Inl (Abort E_PROPOSAL_NOT_OPEN)
        else if executed proposal then Inl (Abort E_PROPOSAL_ALREADY_EXECUTED)
        else if \<not> execution_time proposal \<le> now_seconds w then Inl (Abort E_PROPOSAL_NOT_READY)
        else if \<not> add_ok (yes_votes proposal) (no_votes proposal) then Inl ArithmeticError
        else if \<not> mul_ok (staked_tokens treasury) QUORUM_PERCENTAGE then Inl ArithmeticError
        else
          let total_votes = yes_votes proposal + no_votes proposal;
              quorum_required = (staked_tokens treasury * QUORUM_PERCENTAGE) div 100
          in
          if total_votes < quorum_required then
            Inr (emit
                  (put_treasury w dao_treasury_address
                    (put_proposal treasury proposal_id (proposal\<lparr>status := 4, executed := True\<rparr>)))
                  (ProposalExecutedEvent proposal_id 2 0))
          else if yes_votes proposal > no_votes proposal then
            (if category proposal = CATEGORY_FUNDING then
               (case coin_withdraw (coin_store w) (treasury_signer_cap treasury)
                       (requested_amount proposal) of
                  Inl e \<Rightarrow> Inl e
                | Inr cs1 \<Rightarrow>
               (case coin_deposit cs1 (recipient proposal) (requested_amount proposal) of
                  Inl e \<Rightarrow> Inl e
                | Inr cs2 \<Rightarrow>
                  if \<not> sub_ok (total_funds treasury) (requested_amount proposal)
                  then Inl ArithmeticError
                  else
                    Inr (emit
                          (put_treasury (w\<lparr>coin_store := cs2\<rparr>) dao_treasury_address
                            (put_proposal
                              (treasury\<lparr>total_funds :=
                                 total_funds treasury - requested_amount proposal\<rparr>)
                              proposal_id (proposal\<lparr>status := 1, executed := True\<rparr>)))
                          (ProposalExecutedEvent proposal_id 0 (requested_amount proposal)))))
             else
               Inr (emit
                     (put_treasury w dao_treasury_address
                       (put_proposal treasury proposal_id
                         (proposal\<lparr>status := 1, executed := True\<rparr>)))
                     (ProposalExecutedEvent proposal_id 0 0)))
          else
            Inr (emit
                  (put_treasury w dao_treasury_address
                    (put_proposal treasury proposal_id (proposal\<lparr>status := 2, executed := True\<rparr>)))
                  (ProposalExecutedEvent proposal_id 1 0))))"

text \<open>
  \<open>initialize_dao\<close>: creates the resource account, registers its coin store, and
  publishes the treasury under it and the founder's member record under the caller.
\<close>

definition initialize_dao :: "world \<Rightarrow> signer \<Rightarrow> u8 list \<Rightarrow> error + world" where
  "initialize_dao w account dao_seed =
     (let sender_addr = address_of account;
          treasury_addr = ResourceAccount sender_addr dao_seed
      in
      if treasury_addr \<in> accounts w then Inl AccountAlreadyExists
      else if treasury_store w treasury_addr \<noteq> None then Inl ResourceAlreadyExists
      else if member_store w sender_addr \<noteq> None then Inl ResourceAlreadyExists
      else
        Inr (put_member
              (put_treasury
                (w\<lparr>accounts := insert treasury_addr (accounts w),
                    coin_store := coin_register (coin_store w) treasury_addr\<rparr>)
                treasury_addr
                \<lparr>proposals = Map.empty,
                 proposal_count = 0,
                 total_funds = 0,
                 total_governance_tokens = INITIAL_TOKEN_SUPPLY,
                 staked_tokens = 0,
                 admin = sender_addr,
                 governance_threshold = 1000,
                 paused = False,
                 treasury_signer_cap = treasury_addr\<rparr>)
              sender_addr
              \<lparr>governance_tokens =
                 \<lparr>balance = INITIAL_TOKEN_SUPPLY div 2,
                  staked_balance = 0,
                  last_claim_time = now_seconds w,
                  total_earned = INITIAL_TOKEN_SUPPLY div 2\<rparr>,
               proposals_created = 0,
               votes_cast = 0,
               member_since = now_seconds w,
               reputation_score = 100\<rparr>))"

text \<open>\<open>join_dao\<close> takes the caller only: no treasury is named, none is read.\<close>

definition join_dao :: "world \<Rightarrow> signer \<Rightarrow> error + world" where
  "join_dao w account =
     (let sender_addr = address_of account in
      if member_store w sender_addr \<noteq> None then Inl ResourceAlreadyExists
      else
        Inr (put_member w sender_addr
              \<lparr>governance_tokens =
                 \<lparr>balance = 100,
                  staked_balance = 0,
                  last_claim_time = now_seconds w,
                  total_earned = 100\<rparr>,
               proposals_created = 0,
               votes_cast = 0,
               member_since = now_seconds w,
               reputation_score = 10\<rparr>))"

definition deposit_funds :: "world \<Rightarrow> signer \<Rightarrow> address \<Rightarrow> u64 \<Rightarrow> error + world" where
  "deposit_funds w account dao_treasury_address amount =
     (let sender_addr = address_of account in
      case treasury_store w dao_treasury_address of
        None \<Rightarrow> Inl MissingData
      | Some treasury \<Rightarrow>
        if paused treasury then Inl (Abort E_DAO_PAUSED)
        else
         (case coin_withdraw (coin_store w) sender_addr amount of
            Inl e \<Rightarrow> Inl e
          | Inr cs1 \<Rightarrow>
         (case coin_deposit cs1 dao_treasury_address amount of
            Inl e \<Rightarrow> Inl e
          | Inr cs2 \<Rightarrow>
            if \<not> add_ok (total_funds treasury) amount then Inl ArithmeticError
            else
              Inr (emit
                    (put_treasury (w\<lparr>coin_store := cs2\<rparr>) dao_treasury_address
                      (treasury\<lparr>total_funds := total_funds treasury + amount\<rparr>))
                    (FundsDepositedEvent sender_addr amount)))))"

text \<open>
  \<open>stake_tokens\<close> borrows the treasury and the caller's member record before its
  first assertion, so an absent record aborts ahead of the pause check.
\<close>

definition stake_tokens :: "world \<Rightarrow> signer \<Rightarrow> address \<Rightarrow> u64 \<Rightarrow> error + world" where
  "stake_tokens w account dao_treasury_address amount =
     (let sender_addr = address_of account in
      case treasury_store w dao_treasury_address of
        None \<Rightarrow> Inl MissingData
      | Some treasury \<Rightarrow>
     (case member_store w sender_addr of
        None \<Rightarrow> Inl MissingData
      | Some member \<Rightarrow>
        let tokens = governance_tokens member in
        if paused treasury then Inl (Abort E_DAO_PAUSED)
        else if \<not> balance tokens \<ge> amount then Inl (Abort E_INSUFFICIENT_TOKENS)
        else if \<not> add_ok (staked_balance tokens) amount then Inl ArithmeticError
        else if \<not> add_ok (staked_tokens treasury) amount then Inl ArithmeticError
        else if \<not> add_ok (reputation_score member) (amount div 100) then Inl ArithmeticError
        else
          Inr (emit
                (put_member
                  (put_treasury w dao_treasury_address
                    (treasury\<lparr>staked_tokens := staked_tokens treasury + amount\<rparr>))
                  sender_addr
                  (member\<lparr>governance_tokens :=
                             tokens\<lparr>balance := balance tokens - amount,
                                    staked_balance := staked_balance tokens + amount\<rparr>,
                          reputation_score := reputation_score member + amount div 100\<rparr>))
                (TokensStakedEvent sender_addr amount))))"

text \<open>
  \<open>transfer_tokens\<close> takes no treasury. The recipient's record is borrowed after the
  sender's balance is written, so a transfer to oneself reads the debited balance.
\<close>

definition transfer_tokens :: "world \<Rightarrow> signer \<Rightarrow> address \<Rightarrow> u64 \<Rightarrow> error + world" where
  "transfer_tokens w account recipient_addr amount =
     (let sender_addr = address_of account in
      case member_store w sender_addr of
        None \<Rightarrow> Inl MissingData
      | Some sender_member \<Rightarrow>
        let tokens = governance_tokens sender_member in
        if \<not> balance tokens \<ge> amount then Inl (Abort E_INSUFFICIENT_TOKENS)
        else
          let w1 = put_member w sender_addr
                     (sender_member\<lparr>governance_tokens :=
                        tokens\<lparr>balance := balance tokens - amount\<rparr>\<rparr>)
          in
          (case member_store w1 recipient_addr of
             None \<Rightarrow> Inl MissingData
           | Some recipient_member \<Rightarrow>
             let rtokens = governance_tokens recipient_member in
             if \<not> add_ok (balance rtokens) amount then Inl ArithmeticError
             else
               Inr (put_member w1 recipient_addr
                     (recipient_member\<lparr>governance_tokens :=
                        rtokens\<lparr>balance := balance rtokens + amount\<rparr>\<rparr>))))"

definition create_investment_proposal ::
  "world \<Rightarrow> signer \<Rightarrow> address \<Rightarrow> string \<Rightarrow> string \<Rightarrow> u8 \<Rightarrow> address \<Rightarrow> u64 \<Rightarrow> error + world" where
  "create_investment_proposal w account dao_treasury_address title_arg description_arg
       category_arg recipient_arg requested_amount_arg =
     (let sender_addr = address_of account in
      case treasury_store w dao_treasury_address of
        None \<Rightarrow> Inl MissingData
      | Some treasury \<Rightarrow>
     (case member_store w sender_addr of
        None \<Rightarrow> Inl MissingData
      | Some member \<Rightarrow>
        let tokens = governance_tokens member in
        if paused treasury then Inl (Abort E_DAO_PAUSED)
        else if \<not> category_arg \<le> CATEGORY_EMERGENCY then Inl (Abort E_INVALID_CATEGORY)
        else if \<not> requested_amount_arg \<ge> MIN_PROPOSAL_AMOUNT then Inl (Abort E_PROPOSAL_TOO_SMALL)
        else if \<not> add_ok (balance tokens) (staked_balance tokens) then Inl ArithmeticError
        else if \<not> balance tokens + staked_balance tokens \<ge> governance_threshold treasury
          then Inl (Abort E_INSUFFICIENT_TOKENS)
        else if category_arg = CATEGORY_FUNDING \<and> \<not> total_funds treasury \<ge> requested_amount_arg
          then Inl (Abort E_INSUFFICIENT_FUNDS)
        else
          let proposal_id = proposal_count treasury;
              current_time = now_seconds w;
              voting_duration =
                (if category_arg = CATEGORY_EMERGENCY then VOTING_PERIOD div 7 else VOTING_PERIOD)
          in
          if \<not> add_ok current_time voting_duration then Inl ArithmeticError
          else if \<not> add_ok (current_time + voting_duration) EXECUTION_DELAY then Inl ArithmeticError
          else
            let voting_end = current_time + voting_duration;
                proposal =
                  \<lparr>id_field = proposal_id,
                   title = title_arg,
                   description = description_arg,
                   category = category_arg,
                   recipient = recipient_arg,
                   requested_amount = requested_amount_arg,
                   yes_votes = 0,
                   no_votes = 0,
                   proposer = sender_addr,
                   creation_time = current_time,
                   voting_end_time = voting_end,
                   execution_time = voting_end + EXECUTION_DELAY,
                   status = 0,
                   voters = Map.empty,
                   executed = False\<rparr>
            in
            if proposals treasury proposal_id \<noteq> None then Inl TableEntryAlreadyExists
            else if \<not> add_ok proposal_id 1 then Inl ArithmeticError
            else if \<not> add_ok (proposals_created member) 1 then Inl ArithmeticError
            else if \<not> add_ok (reputation_score member) 5 then Inl ArithmeticError
            else
              Inr (emit
                    (put_member
                      (put_treasury w dao_treasury_address
                        ((put_proposal treasury proposal_id proposal)
                           \<lparr>proposal_count := proposal_id + 1\<rparr>))
                      sender_addr
                      (member\<lparr>proposals_created := proposals_created member + 1,
                              reputation_score := reputation_score member + 5\<rparr>))
                    (ProposalCreatedEvent proposal_id sender_addr title_arg category_arg
                       requested_amount_arg))))"

definition vote_on_proposal :: "world \<Rightarrow> signer \<Rightarrow> address \<Rightarrow> u64 \<Rightarrow> bool \<Rightarrow> error + world" where
  "vote_on_proposal w account dao_treasury_address proposal_id vote =
     (let voter_addr = address_of account in
      case treasury_store w dao_treasury_address of
        None \<Rightarrow> Inl MissingData
      | Some treasury \<Rightarrow>
     (case member_store w voter_addr of
        None \<Rightarrow> Inl MissingData
      | Some member \<Rightarrow>
        if paused treasury then Inl (Abort E_DAO_PAUSED)
        else
         (case proposals treasury proposal_id of
            None \<Rightarrow> Inl TableEntryNotFound
          | Some proposal \<Rightarrow>
            let tokens = governance_tokens member;
                base_voting_power = staked_balance tokens;
                reputation_bonus = reputation_score member div 10
            in
            if status proposal \<noteq> 0 then Inl (Abort E_PROPOSAL_NOT_OPEN)
            else if \<not> now_seconds w \<le> voting_end_time proposal then Inl (Abort E_VOTING_ENDED)
            else if voters proposal voter_addr \<noteq> None then Inl (Abort E_ALREADY_VOTED)
            else if \<not> add_ok base_voting_power reputation_bonus then Inl ArithmeticError
            else
              let voting_power = base_voting_power + reputation_bonus in
              if \<not> voting_power > 0 then Inl (Abort E_INSUFFICIENT_TOKENS)
              else if \<not> add_ok (votes_cast member) 1 then Inl ArithmeticError
              else if \<not> add_ok (if vote then yes_votes proposal else no_votes proposal) voting_power
                then Inl ArithmeticError
              else if \<not> add_ok (balance tokens) PARTICIPATION_REWARD then Inl ArithmeticError
              else if \<not> add_ok (total_earned tokens) PARTICIPATION_REWARD then Inl ArithmeticError
              else if \<not> add_ok (reputation_score member) 1 then Inl ArithmeticError
              else
                let proposal1 = proposal\<lparr>voters := (voters proposal)(voter_addr \<mapsto> voting_power)\<rparr>;
                    proposal2 =
                      (if vote then proposal1\<lparr>yes_votes := yes_votes proposal + voting_power\<rparr>
                       else proposal1\<lparr>no_votes := no_votes proposal + voting_power\<rparr>)
                in
                Inr (emit
                      (put_member
                        (put_treasury w dao_treasury_address
                          (put_proposal treasury proposal_id proposal2))
                        voter_addr
                        (member\<lparr>governance_tokens :=
                                   tokens\<lparr>balance := balance tokens + PARTICIPATION_REWARD,
                                          total_earned := total_earned tokens + PARTICIPATION_REWARD\<rparr>,
                                votes_cast := votes_cast member + 1,
                                reputation_score := reputation_score member + 1\<rparr>))
                      (VoteCastEvent proposal_id voter_addr vote voting_power
                         PARTICIPATION_REWARD)))))"

text \<open>\<open>distribute_tokens\<close> reads the treasury for its admin only.\<close>

definition distribute_tokens ::
  "world \<Rightarrow> signer \<Rightarrow> address \<Rightarrow> address \<Rightarrow> u64 \<Rightarrow> string \<Rightarrow> error + world" where
  "distribute_tokens w account dao_treasury_address recipient_addr amount reason =
     (let sender_addr = address_of account in
      case treasury_store w dao_treasury_address of
        None \<Rightarrow> Inl MissingData
      | Some treasury \<Rightarrow>
        if \<not> sender_addr = admin treasury then Inl (Abort E_NOT_AUTHORIZED)
        else
         (case member_store w recipient_addr of
            None \<Rightarrow> Inl MissingData
          | Some recipient_member \<Rightarrow>
            let tokens = governance_tokens recipient_member in
            if \<not> add_ok (balance tokens) amount then Inl ArithmeticError
            else if \<not> add_ok (total_earned tokens) amount then Inl ArithmeticError
            else
              Inr (emit
                    (put_member w recipient_addr
                      (recipient_member\<lparr>governance_tokens :=
                         tokens\<lparr>balance := balance tokens + amount,
                                total_earned := total_earned tokens + amount\<rparr>\<rparr>))
                    (TokensDistributedEvent recipient_addr amount reason))))"

definition emergency_pause :: "world \<Rightarrow> signer \<Rightarrow> address \<Rightarrow> error + world" where
  "emergency_pause w account dao_treasury_address =
     (let sender_addr = address_of account in
      case treasury_store w dao_treasury_address of
        None \<Rightarrow> Inl MissingData
      | Some treasury \<Rightarrow>
        if \<not> sender_addr = admin treasury then Inl (Abort E_NOT_AUTHORIZED)
        else
          Inr (emit (put_treasury w dao_treasury_address (treasury\<lparr>paused := True\<rparr>))
                (EmergencyActionEvent sender_addr ''PAUSE'' True)))"

definition emergency_unpause :: "world \<Rightarrow> signer \<Rightarrow> address \<Rightarrow> error + world" where
  "emergency_unpause w account dao_treasury_address =
     (let sender_addr = address_of account in
      case treasury_store w dao_treasury_address of
        None \<Rightarrow> Inl MissingData
      | Some treasury \<Rightarrow>
        if \<not> sender_addr = admin treasury then Inl (Abort E_NOT_AUTHORIZED)
        else
          Inr (emit (put_treasury w dao_treasury_address (treasury\<lparr>paused := False\<rparr>))
                (EmergencyActionEvent sender_addr ''UNPAUSE'' False)))"

section \<open>View functions\<close>

text \<open>
  \<open>get_proposal_info\<close> returns a plain tuple; \<open>table::borrow\<close> aborts on an absent
  key.
\<close>

definition get_proposal_info ::
  "world \<Rightarrow> address \<Rightarrow> u64 \<Rightarrow> error + (string \<times> u8 \<times> u64 \<times> u64 \<times> u64 \<times> u8 \<times> u64 \<times> bool \<times> address)" where
  "get_proposal_info w dao_treasury_address proposal_id =
     (case treasury_store w dao_treasury_address of
        None \<Rightarrow> Inl MissingData
      | Some treasury \<Rightarrow>
     (case proposals treasury proposal_id of
        None \<Rightarrow> Inl TableEntryNotFound
      | Some proposal \<Rightarrow>
          Inr (title proposal, category proposal, requested_amount proposal,
               yes_votes proposal, no_votes proposal, status proposal,
               voting_end_time proposal, executed proposal, proposer proposal)))"

definition get_voting_power :: "world \<Rightarrow> address \<Rightarrow> error + u64" where
  "get_voting_power w member_address =
     (case member_store w member_address of
        None \<Rightarrow> Inl MissingData
      | Some member \<Rightarrow>
          let base_power = staked_balance (governance_tokens member);
              reputation_bonus = reputation_score member div 10
          in if \<not> add_ok base_power reputation_bonus then Inl ArithmeticError
             else Inr (base_power + reputation_bonus))"

definition calculate_quorum :: "world \<Rightarrow> address \<Rightarrow> error + u64" where
  "calculate_quorum w dao_treasury_address =
     (case treasury_store w dao_treasury_address of
        None \<Rightarrow> Inl MissingData
      | Some treasury \<Rightarrow>
          if \<not> mul_ok (staked_tokens treasury) QUORUM_PERCENTAGE then Inl ArithmeticError
          else Inr ((staked_tokens treasury * QUORUM_PERCENTAGE) div 100))"

section \<open>Transactions\<close>

text \<open>One constructor per entry function of the module, with its arguments.\<close>

datatype call =
    InitializeDao signer "u8 list"
  | JoinDao signer
  | DepositFunds signer address u64
  | StakeTokens signer address u64
  | TransferTokens signer address u64
  | CreateInvestmentProposal signer address string string u8 address u64
  | VoteOnProposal signer address u64 bool
  | ExecuteProposal signer address u64
  | DistributeTokens signer address address u64 string
  | EmergencyPause signer address
  | EmergencyUnpause signer address

fun run :: "world \<Rightarrow> call \<Rightarrow> error + world" where
  "run w (InitializeDao s seed) = initialize_dao w s seed"
| "run w (JoinDao s) = join_dao w s"
| "run w (DepositFunds s t n) = deposit_funds w s t n"
| "run w (StakeTokens s t n) = stake_tokens w s t n"
| "run w (TransferTokens s r n) = transfer_tokens w s r n"
| "run w (CreateInvestmentProposal s t ti de c r n) = create_investment_proposal w s t ti de c r n"
| "run w (VoteOnProposal s t i v) = vote_on_proposal w s t i v"
| "run w (ExecuteProposal s t i) = execute_proposal w s t i"
| "run w (DistributeTokens s t r n re) = distribute_tokens w s t r n re"
| "run w (EmergencyPause s t) = emergency_pause w s t"
| "run w (EmergencyUnpause s t) = emergency_unpause w s t"

text \<open>
  A Move transaction is atomic: an abort discards every write, so the state after a
  call is the new world when it returns and the old one when it aborts.
\<close>

definition state_after :: "world \<Rightarrow> error + world \<Rightarrow> world" where
  "state_after w r = (case r of Inl e \<Rightarrow> w | Inr w' \<Rightarrow> w')"

text \<open>
  What happens to the world outside the module: the ledger clock advances, an account
  registers a coin store, coin arrives in a registered store from elsewhere (a
  \<open>coin::transfer\<close> to it, the treasury's address included).
\<close>

datatype env_step =
    AdvanceTime u64
  | CoinRegister address
  | CoinCredit address u64

fun env :: "world \<Rightarrow> env_step \<Rightarrow> world option" where
  "env w (AdvanceTime d) =
     (if add_ok (now_seconds w) d then Some (w\<lparr>now_seconds := now_seconds w + d\<rparr>) else None)"
| "env w (CoinRegister a) = Some (w\<lparr>coin_store := coin_register (coin_store w) a\<rparr>)"
| "env w (CoinCredit a n) =
     (case coin_deposit (coin_store w) a n of
        Inl e \<Rightarrow> None
      | Inr cs \<Rightarrow> Some (w\<lparr>coin_store := cs\<rparr>))"

definition genesis :: world where
  "genesis = \<lparr>now_seconds = 0, accounts = {}, coin_store = Map.empty,
              treasury_store = Map.empty, member_store = Map.empty, event_log = []\<rparr>"

text \<open>
  A history of the ledger is a list of steps, each a call of the module or a step of
  the environment; a call that aborts, or an environment step that cannot happen,
  leaves the world as it was. The reachable worlds are \<open>run_trace genesis tr\<close>.
\<close>

datatype step = Call call | Env env_step

fun do_step :: "world \<Rightarrow> step \<Rightarrow> world" where
  "do_step w (Call c) = state_after w (run w c)"
| "do_step w (Env e) = (case env w e of None \<Rightarrow> w | Some w' \<Rightarrow> w')"

fun run_trace :: "world \<Rightarrow> step list \<Rightarrow> world" where
  "run_trace w [] = w"
| "run_trace w (s # tr) = run_trace (do_step w s) tr"

section \<open>Observations and sample states\<close>

text \<open>What a claim reads off a world: a proposal, the treasury's recorded funds.\<close>

definition proposal_at :: "world \<Rightarrow> address \<Rightarrow> u64 \<Rightarrow> InvestmentProposal option" where
  "proposal_at w t i = (case treasury_store w t of None \<Rightarrow> None | Some tr \<Rightarrow> proposals tr i)"

definition funds_at :: "world \<Rightarrow> address \<Rightarrow> u64 option" where
  "funds_at w t = map_option total_funds (treasury_store w t)"

text \<open>
  The quorum test of \<open>execute_proposal\<close> read on the naturals: the cast votes reach
  \<open>floor (staked_tokens * 20 / 100)\<close>.
\<close>

definition quorum_met :: "DAOTreasury \<Rightarrow> InvestmentProposal \<Rightarrow> bool" where
  "quorum_met tr p \<longleftrightarrow>
     unat (staked_tokens tr) * 20 div 100 \<le> unat (yes_votes p) + unat (no_votes p)"

text \<open>A member's tokens, available and staked together.\<close>

definition holdings :: "DAOMember \<Rightarrow> nat" where
  "holdings m =
     unat (balance (governance_tokens m)) + unat (staked_balance (governance_tokens m))"

fun sends_tokens :: "address \<Rightarrow> call \<Rightarrow> bool" where
  "sends_tokens a (TransferTokens s r n) = (address_of s = a)"
| "sends_tokens a c = False"

fun is_stake :: "call \<Rightarrow> bool" where
  "is_stake (StakeTokens s t n) = True"
| "is_stake c = False"

text \<open>The token total a treasury records.\<close>

definition supply_of :: "world \<Rightarrow> address \<Rightarrow> u64 option" where
  "supply_of w a = map_option total_governance_tokens (treasury_store w a)"

text \<open>Every treasury in the world records the initial supply as its token total.\<close>

definition supply_fixed :: "world \<Rightarrow> bool" where
  "supply_fixed w \<longleftrightarrow>
     (\<forall>a t. treasury_store w a = Some t \<longrightarrow> total_governance_tokens t = INITIAL_TOKEN_SUPPLY)"

text \<open>
  A small world for the concrete checks: one treasury with 1000 staked tokens and 8000
  in custody, one Funding proposal of 5000 with the given tallies, past its execution
  time.
\<close>

definition sample_treasury_address :: address where
  "sample_treasury_address = ResourceAccount (Account 1) []"

definition sample_proposal :: "u64 \<Rightarrow> u64 \<Rightarrow> InvestmentProposal" where
  "sample_proposal y n =
     \<lparr>id_field = 0, title = ''Fund XYZ'', description = ''seed round'',
      category = CATEGORY_FUNDING, recipient = Account 2, requested_amount = 5000,
      yes_votes = y, no_votes = n, proposer = Account 1, creation_time = 0,
      voting_end_time = 604800, execution_time = 691200, status = 0,
      voters = [Account 1 \<mapsto> y, Account 3 \<mapsto> n], executed = False\<rparr>"

definition sample_treasury :: "InvestmentProposal \<Rightarrow> bool \<Rightarrow> DAOTreasury" where
  "sample_treasury p b =
     \<lparr>proposals = [0 \<mapsto> p], proposal_count = 1, total_funds = 8000,
      total_governance_tokens = INITIAL_TOKEN_SUPPLY, staked_tokens = 1000,
      admin = Account 1, governance_threshold = 1000, paused = b,
      treasury_signer_cap = sample_treasury_address\<rparr>"

definition sample_member :: "u64 \<Rightarrow> u64 \<Rightarrow> DAOMember" where
  "sample_member b s =
     \<lparr>governance_tokens =
        \<lparr>balance = b, staked_balance = s, last_claim_time = 0, total_earned = b + s\<rparr>,
      proposals_created = 0, votes_cast = 0, member_since = 0, reputation_score = 100\<rparr>"

definition sample_world :: "InvestmentProposal \<Rightarrow> bool \<Rightarrow> world" where
  "sample_world p b =
     \<lparr>now_seconds = 700000,
      accounts = {sample_treasury_address},
      coin_store = [sample_treasury_address \<mapsto> 8000, Account 1 \<mapsto> 500, Account 2 \<mapsto> 0],
      treasury_store = [sample_treasury_address \<mapsto> sample_treasury p b],
      member_store = [Account 1 \<mapsto> sample_member 499400 600, Account 3 \<mapsto> sample_member 0 400],
      event_log = []\<rparr>"

text \<open>
  A history from \<open>genesis\<close>: the founder funds the treasury with 1000, stakes, creates
  two Funding proposals of 1000 each (both pass the funds check of
  \<open>create_investment_proposal\<close>, which reserves nothing), votes yes on both, and
  after the delay executes the first, which empties the treasury.
\<close>

definition founder :: address where "founder = Account 1"

definition dao :: address where "dao = ResourceAccount (Account 1) []"

definition payee :: address where "payee = Account 2"

definition shortfall_history :: "step list" where
  "shortfall_history =
    [Env (CoinRegister founder), Env (CoinCredit founder 1000), Env (CoinRegister payee),
     Call (InitializeDao (Signer founder) []),
     Call (DepositFunds (Signer founder) dao 1000),
     Call (StakeTokens (Signer founder) dao 1000),
     Call (CreateInvestmentProposal (Signer founder) dao ''A'' ''first'' CATEGORY_FUNDING payee 1000),
     Call (CreateInvestmentProposal (Signer founder) dao ''B'' ''second'' CATEGORY_FUNDING payee 1000),
     Call (VoteOnProposal (Signer founder) dao 0 True),
     Call (VoteOnProposal (Signer founder) dao 1 True),
     Env (AdvanceTime 691200),
     Call (ExecuteProposal (Signer founder) dao 0)]"

text \<open>
  Further histories from \<open>genesis\<close>. In the first the payee of a passed Funding
  proposal never registers a coin store. In the others the admin distributes tokens
  that are then staked, so that \<open>staked_tokens * 20\<close> no longer fits in u64: with
  a Funding proposal passed, with a proposal below quorum (a newcomer's single vote
  of power 1), and with a tie of two equal votes that meets the quorum.
\<close>

definition voter :: address where "voter = Account 3"

definition unregistered_payee_history :: "step list" where
  "unregistered_payee_history =
    [Env (CoinRegister founder), Env (CoinCredit founder 1000),
     Call (InitializeDao (Signer founder) []),
     Call (DepositFunds (Signer founder) dao 1000),
     Call (StakeTokens (Signer founder) dao 1000),
     Call (CreateInvestmentProposal (Signer founder) dao ''A'' ''first'' CATEGORY_FUNDING payee 1000),
     Call (VoteOnProposal (Signer founder) dao 0 True),
     Env (AdvanceTime 691200)]"

definition large_stake_funding_history :: "step list" where
  "large_stake_funding_history =
    [Env (CoinRegister founder), Env (CoinCredit founder 1000), Env (CoinRegister payee),
     Call (InitializeDao (Signer founder) []),
     Call (DepositFunds (Signer founder) dao 1000),
     Call (CreateInvestmentProposal (Signer founder) dao ''A'' ''first'' CATEGORY_FUNDING payee 1000),
     Call (DistributeTokens (Signer founder) dao founder 9223372036854775808 ''grant''),
     Call (StakeTokens (Signer founder) dao 9223372036854775808),
     Call (VoteOnProposal (Signer founder) dao 0 True),
     Env (AdvanceTime 691200)]"

definition large_stake_quorum_history :: "step list" where
  "large_stake_quorum_history =
    [Call (InitializeDao (Signer founder) []),
     Call (CreateInvestmentProposal (Signer founder) dao ''G'' ''rules'' CATEGORY_GOVERNANCE payee 1000),
     Call (JoinDao (Signer voter)),
     Call (VoteOnProposal (Signer voter) dao 0 True),
     Call (DistributeTokens (Signer founder) dao founder 9223372036854775808 ''grant''),
     Call (StakeTokens (Signer founder) dao 9223372036854775808),
     Env (AdvanceTime 691200)]"

definition large_stake_tie_history :: "step list" where
  "large_stake_tie_history =
    [Call (InitializeDao (Signer founder) []),
     Call (CreateInvestmentProposal (Signer founder) dao ''G'' ''rules'' CATEGORY_GOVERNANCE payee 1000),
     Call (JoinDao (Signer voter)),
     Call (DistributeTokens (Signer founder) dao founder 500000000000000000 ''grant''),
     Call (DistributeTokens (Signer founder) dao voter 500000000000000009 ''grant''),
     Call (StakeTokens (Signer founder) dao 500000000000000000),
     Call (StakeTokens (Signer voter) dao 500000000000000009),
     Call (VoteOnProposal (Signer founder) dao 0 True),
     Call (VoteOnProposal (Signer voter) dao 0 False),
     Env (AdvanceTime 691200)]"

section \<open>Basic facts\<close>

lemmas sample_defs = sample_treasury_address_def sample_proposal_def sample_treasury_def
  sample_member_def sample_world_def

lemmas run_defs = initialize_dao_def join_dao_def deposit_funds_def stake_tokens_def
  transfer_tokens_def distribute_tokens_def
  create_investment_proposal_def vote_on_proposal_def execute_proposal_def
  coin_withdraw_def coin_deposit_def coin_register_def
  put_treasury_def put_member_def put_proposal_def emit_def state_after_def
  add_ok_def sub_ok_def mul_ok_def genesis_def Let_def
  founder_def dao_def payee_def voter_def

text \<open>Under its guard a u64 operation is the operation on the naturals.\<close>

lemma add_ok_unat: "add_ok a b \<Longrightarrow> unat (a + b) = unat a + unat b"
  by (simp add: add_ok_def unat_word_ariths)

lemma mul_ok_unat: "mul_ok a b \<Longrightarrow> unat (a * b) = unat a * unat b"
  by (simp add: mul_ok_def unat_word_ariths)

lemma sub_ok_unat: "sub_ok a b \<Longrightarrow> unat (a - b) = unat a - unat b"
  by (simp add: sub_ok_def unat_sub)

lemma quorum_required_unat:
  "mul_ok s QUORUM_PERCENTAGE \<Longrightarrow> unat ((s * QUORUM_PERCENTAGE) div 100) = unat s * 20 div 100"
  by (simp add: mul_ok_unat unat_div)

lemma quorum_test:
  assumes "add_ok y n" and "mul_ok s QUORUM_PERCENTAGE"
  shows "y + n < (s * QUORUM_PERCENTAGE) div 100 \<longleftrightarrow> unat y + unat n < unat s * 20 div 100"
  using assms by (simp add: word_less_nat_alt add_ok_unat quorum_required_unat)

lemma obs_simps:
  "treasury_store (emit w e) = treasury_store w"
  "coin_store (emit w e) = coin_store w"
  "member_store (emit w e) = member_store w"
  "event_log (emit w e) = event_log w @ [e]"
  "treasury_store (put_treasury w t tr) = (treasury_store w)(t \<mapsto> tr)"
  "coin_store (put_treasury w t tr) = coin_store w"
  "member_store (put_treasury w t tr) = member_store w"
  "event_log (put_treasury w t tr) = event_log w"
  "treasury_store (put_member w a m) = treasury_store w"
  "coin_store (put_member w a m) = coin_store w"
  "member_store (put_member w a m) = (member_store w)(a \<mapsto> m)"
  "event_log (put_member w a m) = event_log w"
  "proposals (put_proposal tr i p) = (proposals tr)(i \<mapsto> p)"
  "total_funds (put_proposal tr i p) = total_funds tr"
  "total_governance_tokens (put_proposal tr i p) = total_governance_tokens tr"
  by (simp_all add: emit_def put_treasury_def put_member_def put_proposal_def)

text \<open>
  \<open>execute_proposal\<close> once its three assertions and the two overflow guards are
  passed: the three outcomes, with the quorum test read on the naturals.
\<close>

lemma execute_proposal_ready:
  assumes "treasury_store w t = Some tr" and "proposals tr i = Some p"
    and "status p = 0" and "\<not> executed p" and "execution_time p \<le> now_seconds w"
    and "add_ok (yes_votes p) (no_votes p)" and "mul_ok (staked_tokens tr) QUORUM_PERCENTAGE"
  shows "execute_proposal w s t i =
     (if \<not> quorum_met tr p then
        Inr (emit (put_treasury w t (put_proposal tr i (p\<lparr>status := 4, executed := True\<rparr>)))
               (ProposalExecutedEvent i 2 0))
      else if unat (no_votes p) < unat (yes_votes p) then
        (if category p = CATEGORY_FUNDING then
           (case coin_withdraw (coin_store w) (treasury_signer_cap tr) (requested_amount p) of
              Inl e \<Rightarrow> Inl e
            | Inr cs1 \<Rightarrow>
           (case coin_deposit cs1 (recipient p) (requested_amount p) of
              Inl e \<Rightarrow> Inl e
            | Inr cs2 \<Rightarrow>
              if \<not> sub_ok (total_funds tr) (requested_amount p) then Inl ArithmeticError
              else Inr (emit (put_treasury (w\<lparr>coin_store := cs2\<rparr>) t
                          (put_proposal (tr\<lparr>total_funds := total_funds tr - requested_amount p\<rparr>) i
                             (p\<lparr>status := 1, executed := True\<rparr>)))
                          (ProposalExecutedEvent i 0 (requested_amount p)))))
         else Inr (emit (put_treasury w t (put_proposal tr i (p\<lparr>status := 1, executed := True\<rparr>)))
                     (ProposalExecutedEvent i 0 0)))
      else Inr (emit (put_treasury w t (put_proposal tr i (p\<lparr>status := 2, executed := True\<rparr>)))
                  (ProposalExecutedEvent i 1 0)))"
  using assms quorum_test [OF assms(6,7)]
  by (simp add: execute_proposal_def Let_def quorum_met_def word_less_nat_alt not_less)

section \<open>Execution of a proposal\<close>

text \<open>
  Claim C1 (amended). A Funding proposal that is Open (status 0, not executed), past
  its execution time, with the quorum met and more yes than no votes, provided that
  the custody store and \<open>total_funds\<close> hold \<open>requested_amount\<close>, that the recipient
  has a coin store, and that no u64 sum or product of the call overflows
  (\<open>yes_votes + no_votes\<close>, \<open>staked_tokens * 20\<close>, the recipient's balance plus the
  amount): \<open>execute_proposal\<close> returns; the proposal is Funded (status 1) and
  executed; \<open>total_funds\<close> is lower by exactly \<open>requested_amount\<close>; the custody
  store is lower and the recipient's store higher by exactly that amount, every other
  store untouched; the event is ProposalExecuted with result 0 and the amount. A
  recipient that is the custody address itself receives what was withdrawn, so the
  stores are as before.
\<close>

theorem execute_funding_passed:
  assumes "treasury_store w t = Some tr" and "proposals tr i = Some p"
    and "category p = CATEGORY_FUNDING"
    and "status p = 0" and "\<not> executed p" and "execution_time p \<le> now_seconds w"
    and "add_ok (yes_votes p) (no_votes p)" and "mul_ok (staked_tokens tr) QUORUM_PERCENTAGE"
    and "quorum_met tr p" and "no_votes p < yes_votes p"
    and "coin_store w (treasury_signer_cap tr) = Some c" and "requested_amount p \<le> c"
    and "coin_store w (recipient p) = Some r"
    and "recipient p \<noteq> treasury_signer_cap tr \<longrightarrow> add_ok r (requested_amount p)"
    and "requested_amount p \<le> total_funds tr"
  shows "\<exists>w'. execute_proposal w s t i = Inr w' \<and>
      proposal_at w' t i = Some (p\<lparr>status := 1, executed := True\<rparr>) \<and>
      event_log w' = event_log w @ [ProposalExecutedEvent i 0 (requested_amount p)] \<and>
      funds_at w' t = Some (total_funds tr - requested_amount p) \<and>
      unat (total_funds tr - requested_amount p) = unat (total_funds tr) - unat (requested_amount p) \<and>
      (recipient p \<noteq> treasury_signer_cap tr \<longrightarrow>
         coin_store w' (treasury_signer_cap tr) = Some (c - requested_amount p) \<and>
         unat (c - requested_amount p) = unat c - unat (requested_amount p) \<and>
         coin_store w' (recipient p) = Some (r + requested_amount p) \<and>
         unat (r + requested_amount p) = unat r + unat (requested_amount p)) \<and>
      (recipient p = treasury_signer_cap tr \<longrightarrow> coin_store w' = coin_store w) \<and>
      (\<forall>a. a \<noteq> treasury_signer_cap tr \<and> a \<noteq> recipient p \<longrightarrow> coin_store w' a = coin_store w a)"
proof -
  let ?n = "requested_amount p"
  have lt: "unat (no_votes p) < unat (yes_votes p)"
    using assms(10) by (simp add: word_less_nat_alt)
  have wd: "coin_withdraw (coin_store w) (treasury_signer_cap tr) ?n
              = Inr ((coin_store w)(treasury_signer_cap tr \<mapsto> c - ?n))"
    using assms(11,12) by (simp add: coin_withdraw_def not_less)
  have u1: "unat (total_funds tr - ?n) = unat (total_funds tr) - unat ?n"
    using assms(15) by (simp add: sub_ok_unat sub_ok_def)
  have u2: "unat (c - ?n) = unat c - unat ?n"
    using assms(12) by (simp add: sub_ok_unat sub_ok_def)
  show ?thesis
  proof (cases "recipient p = treasury_signer_cap tr")
    case True
    have "unat (c - ?n) + unat ?n = unat c"
      using u2 assms(12) by (simp add: word_le_nat_alt)
    then have ok: "add_ok (c - ?n) ?n"
      using unsigned_less [of c, where ?'a = nat] by (simp add: add_ok_def)
    have dp: "coin_deposit ((coin_store w)(treasury_signer_cap tr \<mapsto> c - ?n)) (recipient p) ?n
                = Inr (coin_store w)"
      using True ok assms(11) by (simp add: coin_deposit_def fun_upd_idem)
    show ?thesis
      using execute_proposal_ready [OF assms(1,2,4-8), of s] assms(3,9,15) lt wd dp u1 True
      by (simp add: obs_simps proposal_at_def funds_at_def sub_ok_def)
  next
    case False
    then have ok: "add_ok r ?n" using assms(14) by simp
    have dp: "coin_deposit ((coin_store w)(treasury_signer_cap tr \<mapsto> c - ?n)) (recipient p) ?n
                = Inr ((coin_store w)(treasury_signer_cap tr \<mapsto> c - ?n, recipient p \<mapsto> r + ?n))"
      using False ok assms(13) by (simp add: coin_deposit_def)
    show ?thesis
      using execute_proposal_ready [OF assms(1,2,4-8), of s] assms(3,9,15) lt wd dp u1 u2 False
        add_ok_unat [OF ok]
      by (simp add: obs_simps proposal_at_def funds_at_def sub_ok_def)
  qed
qed

text \<open>
  At the spec's figures: 1000 staked (quorum 200), yes 300, no 100, 5000 requested
  of 8000 held.
\<close>

theorem execute_funding_passed_witness:
  "\<exists>w'. execute_proposal (sample_world (sample_proposal 300 100) False) (Signer (Account 7))
            sample_treasury_address 0 = Inr w' \<and>
      proposal_at w' sample_treasury_address 0
        = Some ((sample_proposal 300 100)\<lparr>status := 1, executed := True\<rparr>) \<and>
      event_log w' = [ProposalExecutedEvent 0 0 5000] \<and>
      funds_at w' sample_treasury_address = Some 3000 \<and>
      coin_store w' sample_treasury_address = Some 3000 \<and>
      coin_store w' (Account 2) = Some 5000 \<and>
      coin_store w' (Account 1) = Some 500"
  using execute_funding_passed [of "sample_world (sample_proposal 300 100) False"
      sample_treasury_address "sample_treasury (sample_proposal 300 100) False" 0
      "sample_proposal 300 100" 8000 0 "Signer (Account 7)"]
  by (auto simp add: sample_defs mul_ok_def add_ok_def quorum_met_def)

text \<open>
  Without the provisos the claim fails, on worlds reached from \<open>genesis\<close>. A passed
  Funding proposal of 1000, with 1000 in custody and in \<open>total_funds\<close>, whose payee
  has no coin store: \<open>coin::deposit\<close> aborts. The same proposal with a registered
  payee and 9223372036854775808 tokens staked: the quorum is met on the naturals, and
  the product \<open>staked_tokens * 20\<close> overflows.
\<close>

theorem execute_funding_passed_counterexample:
  "map_option category (proposal_at (run_trace genesis unregistered_payee_history) dao 0)
     = Some CATEGORY_FUNDING \<and>
   map_option status (proposal_at (run_trace genesis unregistered_payee_history) dao 0) = Some 0 \<and>
   map_option executed (proposal_at (run_trace genesis unregistered_payee_history) dao 0) = Some False \<and>
   map_option execution_time (proposal_at (run_trace genesis unregistered_payee_history) dao 0)
     = Some 691200 \<and>
   now_seconds (run_trace genesis unregistered_payee_history) = 691200 \<and>
   map_option yes_votes (proposal_at (run_trace genesis unregistered_payee_history) dao 0) = Some 1011 \<and>
   map_option no_votes (proposal_at (run_trace genesis unregistered_payee_history) dao 0) = Some 0 \<and>
   map_option staked_tokens (treasury_store (run_trace genesis unregistered_payee_history) dao)
     = Some 1000 \<and>
   map_option requested_amount (proposal_at (run_trace genesis unregistered_payee_history) dao 0)
     = Some 1000 \<and>
   funds_at (run_trace genesis unregistered_payee_history) dao = Some 1000 \<and>
   coin_store (run_trace genesis unregistered_payee_history) dao = Some 1000 \<and>
   execute_proposal (run_trace genesis unregistered_payee_history) (Signer founder) dao 0
     = Inl CoinStoreNotPublished \<and>
   map_option category (proposal_at (run_trace genesis large_stake_funding_history) dao 0)
     = Some CATEGORY_FUNDING \<and>
   map_option status (proposal_at (run_trace genesis large_stake_funding_history) dao 0) = Some 0 \<and>
   map_option executed (proposal_at (run_trace genesis large_stake_funding_history) dao 0) = Some False \<and>
   map_option execution_time (proposal_at (run_trace genesis large_stake_funding_history) dao 0)
     = Some 691200 \<and>
   now_seconds (run_trace genesis large_stake_funding_history) = 691200 \<and>
   map_option yes_votes (proposal_at (run_trace genesis large_stake_funding_history) dao 0)
     = Some 9232595408891630594 \<and>
   map_option no_votes (proposal_at (run_trace genesis large_stake_funding_history) dao 0) = Some 0 \<and>
   map_option staked_tokens (treasury_store (run_trace genesis large_stake_funding_history) dao)
     = Some 9223372036854775808 \<and>
   (9223372036854775808 * 20 div 100 :: nat) \<le> 9232595408891630594 + 0 \<and>
   funds_at (run_trace genesis large_stake_funding_history) dao = Some 1000 \<and>
   coin_store (run_trace genesis large_stake_funding_history) dao = Some 1000 \<and>
   coin_store (run_trace genesis large_stake_funding_history) payee = Some 0 \<and>
   execute_proposal (run_trace genesis large_stake_funding_history) (Signer founder) dao 0
     = Inl ArithmeticError"
  by (simp add: unregistered_payee_history_def large_stake_funding_history_def run_defs
      proposal_at_def funds_at_def)

text \<open>
  The other categories (the claim's "0 for non-Funding categories"): the proposal is
  marked Funded, the event carries amount 0, and neither \<open>total_funds\<close> nor any coin
  store changes.
\<close>

lemma execute_non_funding_passed:
  assumes "treasury_store w t = Some tr" and "proposals tr i = Some p"
    and "category p \<noteq> CATEGORY_FUNDING"
    and "status p = 0" and "\<not> executed p" and "execution_time p \<le> now_seconds w"
    and "add_ok (yes_votes p) (no_votes p)" and "mul_ok (staked_tokens tr) QUORUM_PERCENTAGE"
    and "quorum_met tr p" and "no_votes p < yes_votes p"
  shows "\<exists>w'. execute_proposal w s t i = Inr w' \<and>
      proposal_at w' t i = Some (p\<lparr>status := 1, executed := True\<rparr>) \<and>
      event_log w' = event_log w @ [ProposalExecutedEvent i 0 0] \<and>
      funds_at w' t = Some (total_funds tr) \<and>
      coin_store w' = coin_store w"
  using execute_proposal_ready [OF assms(1,2,4-8), of s] assms(3,9,10)
  by (simp add: obs_simps proposal_at_def funds_at_def word_less_nat_alt)

text \<open>
  Claim C2 (amended). An Open proposal (status 0, not executed) past its execution
  time, for a treasury whose product \<open>staked_tokens * 20\<close> fits in u64, whose votes
  \<open>yes_votes + no_votes\<close> are below \<open>floor (staked_tokens * 20 / 100)\<close>:
  \<open>execute_proposal\<close> returns; the proposal has status 4 (QuorumNotMet) and is
  executed; the event is ProposalExecuted with result 2 and amount 0; \<open>total_funds\<close>
  and every coin store are as before.
\<close>

theorem execute_quorum_not_met:
  assumes "treasury_store w t = Some tr" and "proposals tr i = Some p"
    and "status p = 0" and "\<not> executed p" and "execution_time p \<le> now_seconds w"
    and "mul_ok (staked_tokens tr) QUORUM_PERCENTAGE"
    and "unat (yes_votes p) + unat (no_votes p) < unat (staked_tokens tr) * 20 div 100"
  shows "\<exists>w'. execute_proposal w s t i = Inr w' \<and>
      proposal_at w' t i = Some (p\<lparr>status := 4, executed := True\<rparr>) \<and>
      event_log w' = event_log w @ [ProposalExecutedEvent i 2 0] \<and>
      funds_at w' t = Some (total_funds tr) \<and>
      coin_store w' = coin_store w"
proof -
  have "unat (staked_tokens tr) * 20 div 100 < 2 ^ 64"
    using quorum_required_unat [OF assms(6)]
      unsigned_less [of "(staked_tokens tr * 20) div 100", where ?'a = nat] by simp
  then have a: "add_ok (yes_votes p) (no_votes p)" using assms(7) by (simp add: add_ok_def)
  have "\<not> quorum_met tr p" using assms(7) by (simp add: quorum_met_def)
  then show ?thesis
    using execute_proposal_ready [OF assms(1-5) a assms(6), of s]
    by (simp add: obs_simps proposal_at_def funds_at_def)
qed

text \<open>The spec's figures: 1000 staked, yes 150, no 40, so 190 below the 200 required.\<close>

theorem execute_quorum_not_met_witness:
  "\<exists>w'. execute_proposal (sample_world (sample_proposal 150 40) False) (Signer (Account 7))
            sample_treasury_address 0 = Inr w' \<and>
      proposal_at w' sample_treasury_address 0
        = Some ((sample_proposal 150 40)\<lparr>status := 4, executed := True\<rparr>) \<and>
      event_log w' = [ProposalExecutedEvent 0 2 0] \<and>
      funds_at w' sample_treasury_address = Some 8000 \<and>
      coin_store w' = coin_store (sample_world (sample_proposal 150 40) False)"
  using execute_quorum_not_met [of "sample_world (sample_proposal 150 40) False"
      sample_treasury_address "sample_treasury (sample_proposal 150 40) False" 0
      "sample_proposal 150 40" "Signer (Account 7)"]
  by (simp add: sample_defs mul_ok_def)

text \<open>
  Without the proviso the claim fails, on a world reached from \<open>genesis\<close>: with
  9223372036854775808 tokens staked and one vote of power 1, the votes are below the
  quorum on the naturals, and the call aborts on the overflow of
  \<open>staked_tokens * 20\<close>, leaving the proposal Open.
\<close>

theorem execute_quorum_not_met_counterexample:
  "map_option status (proposal_at (run_trace genesis large_stake_quorum_history) dao 0) = Some 0 \<and>
   map_option executed (proposal_at (run_trace genesis large_stake_quorum_history) dao 0) = Some False \<and>
   map_option execution_time (proposal_at (run_trace genesis large_stake_quorum_history) dao 0)
     = Some 691200 \<and>
   now_seconds (run_trace genesis large_stake_quorum_history) = 691200 \<and>
   map_option yes_votes (proposal_at (run_trace genesis large_stake_quorum_history) dao 0) = Some 1 \<and>
   map_option no_votes (proposal_at (run_trace genesis large_stake_quorum_history) dao 0) = Some 0 \<and>
   map_option staked_tokens (treasury_store (run_trace genesis large_stake_quorum_history) dao)
     = Some 9223372036854775808 \<and>
   (1 + 0 :: nat) < 9223372036854775808 * 20 div 100 \<and>
   execute_proposal (run_trace genesis large_stake_quorum_history) (Signer founder) dao 0
     = Inl ArithmeticError"
  by (simp add: large_stake_quorum_history_def run_defs proposal_at_def)

text \<open>
  Claim C6 (amended). An Open proposal (status 0, not executed) past its execution
  time, quorum met, with yes and no tallies equal, provided that
  \<open>yes_votes + no_votes\<close> and \<open>staked_tokens * 20\<close> fit in u64:
  \<open>execute_proposal\<close> returns; the proposal has status 2 (Rejected) and is
  executed; the event has result 1 and amount 0; \<open>total_funds\<close> and every coin
  store are as before.
\<close>

theorem execute_tie_rejected:
  assumes "treasury_store w t = Some tr" and "proposals tr i = Some p"
    and "status p = 0" and "\<not> executed p" and "execution_time p \<le> now_seconds w"
    and "add_ok (yes_votes p) (no_votes p)" and "mul_ok (staked_tokens tr) QUORUM_PERCENTAGE"
    and "quorum_met tr p" and "yes_votes p = no_votes p"
  shows "\<exists>w'. execute_proposal w s t i = Inr w' \<and>
      proposal_at w' t i = Some (p\<lparr>status := 2, executed := True\<rparr>) \<and>
      event_log w' = event_log w @ [ProposalExecutedEvent i 1 0] \<and>
      funds_at w' t = Some (total_funds tr) \<and>
      coin_store w' = coin_store w"
  using execute_proposal_ready [OF assms(1-7), of s] assms(8,9)
  by (simp add: obs_simps proposal_at_def funds_at_def)

theorem execute_tie_rejected_witness:
  "\<exists>w'. execute_proposal (sample_world (sample_proposal 150 150) False) (Signer (Account 7))
            sample_treasury_address 0 = Inr w' \<and>
      proposal_at w' sample_treasury_address 0
        = Some ((sample_proposal 150 150)\<lparr>status := 2, executed := True\<rparr>) \<and>
      event_log w' = [ProposalExecutedEvent 0 1 0] \<and>
      funds_at w' sample_treasury_address = Some 8000 \<and>
      coin_store w' = coin_store (sample_world (sample_proposal 150 150) False)"
  using execute_tie_rejected [of "sample_world (sample_proposal 150 150) False"
      sample_treasury_address "sample_treasury (sample_proposal 150 150) False" 0
      "sample_proposal 150 150" "Signer (Account 7)"]
  by (simp add: sample_defs mul_ok_def add_ok_def quorum_met_def)

text \<open>
  Without the proviso the claim fails, on a world reached from \<open>genesis\<close>: two
  members vote yes and no with the same power 500500000000000010, the
  1000000000000000009 tokens staked put the quorum at 200000000000000001, and the
  call aborts on the overflow of \<open>staked_tokens * 20\<close>.
\<close>

theorem execute_tie_rejected_counterexample:
  "map_option status (proposal_at (run_trace genesis large_stake_tie_history) dao 0) = Some 0 \<and>
   map_option executed (proposal_at (run_trace genesis large_stake_tie_history) dao 0) = Some False \<and>
   map_option execution_time (proposal_at (run_trace genesis large_stake_tie_history) dao 0)
     = Some 691200 \<and>
   now_seconds (run_trace genesis large_stake_tie_history) = 691200 \<and>
   map_option yes_votes (proposal_at (run_trace genesis large_stake_tie_history) dao 0)
     = Some 500500000000000010 \<and>
   map_option no_votes (proposal_at (run_trace genesis large_stake_tie_history) dao 0)
     = Some 500500000000000010 \<and>
   map_option staked_tokens (treasury_store (run_trace genesis large_stake_tie_history) dao)
     = Some 1000000000000000009 \<and>
   (1000000000000000009 * 20 div 100 :: nat) \<le> 500500000000000010 + 500500000000000010 \<and>
   execute_proposal (run_trace genesis large_stake_tie_history) (Signer founder) dao 0
     = Inl ArithmeticError"
  by (simp add: large_stake_tie_history_def run_defs proposal_at_def)

text \<open>
  Claim C9. \<open>execute_proposal\<close> never reads its signer: any two callers get the same
  result (the same new world with its treasury, proposal and event, or the same
  abort) on the same world, treasury address and proposal id.
\<close>

theorem execute_proposal_any_caller:
  "execute_proposal w caller1 t i = execute_proposal w caller2 t i"
  by (simp add: execute_proposal_def)

text \<open>
  Claim C4 (the code departs from the claim). With \<open>total_funds\<close> below
  \<open>requested_amount\<close>, \<open>execute_proposal\<close> has no check of its own, unlike
  \<open>create_investment_proposal\<close>, which asserts \<open>total_funds >= requested_amount\<close>
  with \<open>E_INSUFFICIENT_FUNDS\<close>. The call does abort as a whole, but with whatever
  fault comes first: the coin framework's, when the custody store is short too, or
  the u64 underflow of \<open>total_funds - requested_amount\<close>, when the custody store
  holds the amount (coin sent to the treasury's address directly is in custody but
  not in \<open>total_funds\<close>). Here the second proposal of \<open>shortfall_history\<close> is
  executed after 1000 has been sent to the treasury's address: recorded funds 0,
  custody 1000, request 1000, Open, yes 1012 against no 0, quorum 200 of 1000 staked.
\<close>

theorem execute_shortfall_underflow:
  "funds_at (run_trace genesis (shortfall_history @ [Env (CoinCredit dao 1000)])) dao = Some 0 \<and>
   coin_store (run_trace genesis (shortfall_history @ [Env (CoinCredit dao 1000)])) dao = Some 1000 \<and>
   map_option requested_amount
     (proposal_at (run_trace genesis (shortfall_history @ [Env (CoinCredit dao 1000)])) dao 1)
     = Some 1000 \<and>
   map_option (\<lambda>p. (category p, status p, executed p, yes_votes p, no_votes p))
     (proposal_at (run_trace genesis (shortfall_history @ [Env (CoinCredit dao 1000)])) dao 1)
     = Some (CATEGORY_FUNDING, 0, False, 1012, 0) \<and>
   map_option staked_tokens
     (treasury_store (run_trace genesis (shortfall_history @ [Env (CoinCredit dao 1000)])) dao)
     = Some 1000 \<and>
   execute_proposal (run_trace genesis (shortfall_history @ [Env (CoinCredit dao 1000)]))
     (Signer founder) dao 1 = Inl ArithmeticError"
  by (simp add: shortfall_history_def run_defs funds_at_def proposal_at_def)

text \<open>Without the direct credit the custody store is empty and the coin withdrawal aborts.\<close>

lemma execute_shortfall_coin_abort:
  "funds_at (run_trace genesis shortfall_history) dao = Some 0 \<and>
   coin_store (run_trace genesis shortfall_history) dao = Some 0 \<and>
   execute_proposal (run_trace genesis shortfall_history) (Signer founder) dao 1
     = Inl CoinInsufficientBalance"
  by (simp add: shortfall_history_def run_defs funds_at_def)

text \<open>
  In general: \<open>execute_proposal\<close> never aborts with \<open>E_INSUFFICIENT_FUNDS\<close>, and a
  passed Funding proposal that finds \<open>total_funds\<close> short aborts with one of the
  three faults above.
\<close>

lemma execute_never_insufficient_funds:
  "execute_proposal w s t i \<noteq> Inl (Abort E_INSUFFICIENT_FUNDS)"
  by (auto simp add: execute_proposal_def Let_def coin_withdraw_def coin_deposit_def
      split: option.splits if_splits sum.splits)

lemma execute_shortfall_aborts:
  assumes "treasury_store w t = Some tr" and "proposals tr i = Some p"
    and "category p = CATEGORY_FUNDING"
    and "status p = 0" and "\<not> executed p" and "execution_time p \<le> now_seconds w"
    and "add_ok (yes_votes p) (no_votes p)" and "mul_ok (staked_tokens tr) QUORUM_PERCENTAGE"
    and "quorum_met tr p" and "no_votes p < yes_votes p"
    and "total_funds tr < requested_amount p"
  shows "execute_proposal w s t i \<in>
           {Inl CoinStoreNotPublished, Inl CoinInsufficientBalance, Inl ArithmeticError}"
  using execute_proposal_ready [OF assms(1,2,4-8), of s] assms(3,9,10,11)
  by (auto simp add: word_less_nat_alt sub_ok_def word_le_nat_alt coin_withdraw_def
      coin_deposit_def split: option.splits sum.splits if_splits)

text \<open>
  Claim C5 (amended). \<open>execute_proposal\<close> asserts \<open>status == 0\<close> before
  \<open>!executed\<close>. For every proposal whose executed flag is set the call aborts and
  the state is unchanged; the abort is \<open>E_PROPOSAL_NOT_OPEN\<close> when the status is no
  longer Open, as it is after every execution, and \<open>E_PROPOSAL_ALREADY_EXECUTED\<close>
  only for a proposal still marked Open.
\<close>

theorem execute_again_aborts:
  assumes "treasury_store w t = Some tr" and "proposals tr i = Some p" and "executed p"
  shows "execute_proposal w s t i =
           Inl (Abort (if status p = 0 then E_PROPOSAL_ALREADY_EXECUTED else E_PROPOSAL_NOT_OPEN)) \<and>
         state_after w (execute_proposal w s t i) = w"
  using assms by (simp add: execute_proposal_def state_after_def)

theorem execute_again_aborts_witness:
  "execute_proposal (sample_world ((sample_proposal 300 100)\<lparr>status := 1, executed := True\<rparr>) False)
     (Signer (Account 7)) sample_treasury_address 0 = Inl (Abort E_PROPOSAL_NOT_OPEN) \<and>
   state_after (sample_world ((sample_proposal 300 100)\<lparr>status := 1, executed := True\<rparr>) False)
     (execute_proposal (sample_world ((sample_proposal 300 100)\<lparr>status := 1, executed := True\<rparr>) False)
        (Signer (Account 7)) sample_treasury_address 0)
     = sample_world ((sample_proposal 300 100)\<lparr>status := 1, executed := True\<rparr>) False"
  using execute_again_aborts [of
      "sample_world ((sample_proposal 300 100)\<lparr>status := 1, executed := True\<rparr>) False"
      sample_treasury_address
      "sample_treasury ((sample_proposal 300 100)\<lparr>status := 1, executed := True\<rparr>) False" 0
      "(sample_proposal 300 100)\<lparr>status := 1, executed := True\<rparr>" "Signer (Account 7)"]
  by (simp add: sample_defs state_after_def)

text \<open>
  The claim as stated fails: the sample proposal is executed (Funded), and the
  second call aborts with \<open>E_PROPOSAL_NOT_OPEN\<close> (1002), not
  \<open>E_PROPOSAL_ALREADY_EXECUTED\<close> (1009).
\<close>

theorem execute_again_counterexample:
  "execute_proposal
     (state_after (sample_world (sample_proposal 300 100) False)
        (execute_proposal (sample_world (sample_proposal 300 100) False) (Signer (Account 7))
           sample_treasury_address 0))
     (Signer (Account 7)) sample_treasury_address 0
   = Inl (Abort E_PROPOSAL_NOT_OPEN) \<and>
   Inl (Abort E_PROPOSAL_NOT_OPEN) \<noteq> (Inl (Abort E_PROPOSAL_ALREADY_EXECUTED) :: error + world)"
  by (simp add: sample_defs run_defs)

text \<open>Every execution that returns leaves a terminal status, so a second call finds it.\<close>

lemma execute_proposal_terminal:
  assumes "execute_proposal w s t i = Inr w'"
  shows "\<exists>p'. proposal_at w' t i = Some p' \<and> executed p' \<and> status p' \<in> {1, 2, 4}"
  using assms
  by (auto simp add: execute_proposal_def Let_def obs_simps proposal_at_def
      split: option.splits if_splits sum.splits)

lemma second_execute_not_open:
  assumes "execute_proposal w s t i = Inr w'"
  shows "execute_proposal w' s' t i = Inl (Abort E_PROPOSAL_NOT_OPEN)"
proof -
  obtain p' where p': "proposal_at w' t i = Some p'" "executed p'" "status p' \<in> {1, 2, 4}"
    using execute_proposal_terminal [OF assms] by blast
  then obtain tr' where "treasury_store w' t = Some tr'" "proposals tr' i = Some p'"
    by (auto simp add: proposal_at_def split: option.splits)
  then show ?thesis using p' by (auto simp add: execute_proposal_def)
qed

section \<open>The pause flag\<close>




section \<open>Reading a proposal\<close>

text \<open>
  Claim C7 (amended). \<open>get_proposal_info\<close> returns a bare tuple, so it has no
  not-found value to return: for an id absent from the treasury's table the view
  aborts, in \<open>table::borrow\<close>. It is a function of the world alone and writes
  nothing, so every repeated call aborts the same way, and no record, partial or
  whole, is ever returned.
\<close>

theorem get_proposal_info_absent:
  assumes "treasury_store w t = Some tr" and "proposals tr i = None"
  shows "get_proposal_info w t i = Inl TableEntryNotFound \<and>
         (\<forall>r. get_proposal_info w t i \<noteq> Inr r)"
  using assms by (simp add: get_proposal_info_def)

theorem get_proposal_info_absent_witness:
  "get_proposal_info (sample_world (sample_proposal 300 100) False) sample_treasury_address 1
     = Inl TableEntryNotFound \<and>
   (\<forall>r. get_proposal_info (sample_world (sample_proposal 300 100) False) sample_treasury_address 1
          \<noteq> Inr r)"
  using get_proposal_info_absent [of "sample_world (sample_proposal 300 100) False"
      sample_treasury_address "sample_treasury (sample_proposal 300 100) False" 1]
  by (simp add: sample_defs)

text \<open>The claim as stated fails: the query of the absent id 7 is a fault, not a result.\<close>

theorem get_proposal_info_counterexample:
  "isl (get_proposal_info (sample_world (sample_proposal 300 100) False) sample_treasury_address 7)"
  by (simp add: get_proposal_info_def sample_defs)

section \<open>Member tokens\<close>

text \<open>What each entry function does to the member records, when it returns.\<close>

lemma h_initialize:
  "initialize_dao w s seed = Inr w' \<Longrightarrow> member_store w a = Some m \<Longrightarrow> member_store w' a = Some m"
  by (auto simp add: initialize_dao_def Let_def obs_simps split: if_splits)

lemma h_join:
  "join_dao w s = Inr w' \<Longrightarrow> member_store w a = Some m \<Longrightarrow> member_store w' a = Some m"
  by (auto simp add: join_dao_def Let_def obs_simps split: if_splits)

lemma h_deposit:
  "deposit_funds w s t n = Inr w' \<Longrightarrow> member_store w' = member_store w"
  by (auto simp add: deposit_funds_def Let_def obs_simps split: option.splits sum.splits if_splits)

lemma h_stake:
  "stake_tokens w s t n = Inr w' \<Longrightarrow> member_store w a = Some m \<Longrightarrow>
     \<exists>m'. member_store w' a = Some m' \<and> holdings m' = holdings m"
  by (auto simp add: stake_tokens_def Let_def obs_simps holdings_def add_ok_unat unat_sub
        word_le_nat_alt split: option.splits sum.splits if_splits)

lemma h_transfer:
  "transfer_tokens w s r n = Inr w' \<Longrightarrow> member_store w a = Some m \<Longrightarrow> address_of s \<noteq> a \<Longrightarrow>
     \<exists>m'. member_store w' a = Some m' \<and> holdings m \<le> holdings m'"
  by (auto simp add: transfer_tokens_def Let_def obs_simps holdings_def add_ok_unat
        split: option.splits sum.splits if_splits)

lemma h_create:
  "create_investment_proposal w s t ti de c r n = Inr w' \<Longrightarrow> member_store w a = Some m \<Longrightarrow>
     \<exists>m'. member_store w' a = Some m' \<and> holdings m' = holdings m"
  by (auto simp add: create_investment_proposal_def Let_def obs_simps holdings_def
        split: option.splits sum.splits if_splits)

lemma h_vote:
  "vote_on_proposal w s t i v = Inr w' \<Longrightarrow> member_store w a = Some m \<Longrightarrow>
     \<exists>m'. member_store w' a = Some m' \<and> holdings m \<le> holdings m'"
  by (auto simp add: vote_on_proposal_def Let_def obs_simps holdings_def add_ok_unat
        split: option.splits sum.splits if_splits)

lemma h_execute:
  "execute_proposal w s t i = Inr w' \<Longrightarrow> member_store w' = member_store w"
  by (auto simp add: execute_proposal_def Let_def obs_simps split: option.splits sum.splits if_splits)

lemma h_distribute:
  "distribute_tokens w s t r n re = Inr w' \<Longrightarrow> member_store w a = Some m \<Longrightarrow>
     \<exists>m'. member_store w' a = Some m' \<and> holdings m \<le> holdings m'"
  by (auto simp add: distribute_tokens_def Let_def obs_simps holdings_def add_ok_unat
        split: option.splits sum.splits if_splits)

lemma h_pause:
  "emergency_pause w s t = Inr w' \<Longrightarrow> member_store w' = member_store w"
  by (auto simp add: emergency_pause_def Let_def obs_simps split: option.splits if_splits)

lemma h_unpause:
  "emergency_unpause w s t = Inr w' \<Longrightarrow> member_store w' = member_store w"
  by (auto simp add: emergency_unpause_def Let_def obs_simps split: option.splits if_splits)

lemma h_run:
  assumes "run w c = Inr w'" and "member_store w a = Some m" and "\<not> sends_tokens a c"
  shows "\<exists>m'. member_store w' a = Some m' \<and> holdings m \<le> holdings m' \<and>
           (is_stake c \<longrightarrow> holdings m' = holdings m)"
proof (cases c)
  case (InitializeDao s seed)
  then show ?thesis using assms h_initialize [of w s seed w' a m] by simp
next
  case (JoinDao s)
  then show ?thesis using assms h_join [of w s w' a m] by simp
next
  case (DepositFunds s t n)
  then show ?thesis using assms h_deposit [of w s t n w'] by simp
next
  case (StakeTokens s t n)
  then show ?thesis using assms h_stake [of w s t n w' a m] by auto
next
  case (TransferTokens s r n)
  then show ?thesis using assms h_transfer [of w s r n w' a m] by simp
next
  case (CreateInvestmentProposal s t ti de ca r n)
  then show ?thesis using assms h_create [of w s t ti de ca r n w' a m] by auto
next
  case (VoteOnProposal s t i v)
  then show ?thesis using assms h_vote [of w s t i v w' a m] by simp
next
  case (ExecuteProposal s t i)
  then show ?thesis using assms h_execute [of w s t i w'] by simp
next
  case (DistributeTokens s t r n re)
  then show ?thesis using assms h_distribute [of w s t r n re w' a m] by simp
next
  case (EmergencyPause s t)
  then show ?thesis using assms h_pause [of w s t w'] by simp
next
  case (EmergencyUnpause s t)
  then show ?thesis using assms h_unpause [of w s t w'] by simp
qed

text \<open>
  Claim C8. For every member and every call of the module other than a
  \<open>transfer_tokens\<close> sent by that member, the member record is still there after the
  call and \<open>balance + staked_balance\<close> (on the naturals) has not decreased, whether
  the call returned or aborted; after a \<open>stake_tokens\<close> call the sum is the same.
\<close>

theorem holdings_never_decrease:
  assumes "member_store w a = Some m" and "\<not> sends_tokens a c"
  shows "\<exists>m'. member_store (state_after w (run w c)) a = Some m' \<and> holdings m \<le> holdings m' \<and>
           (is_stake c \<longrightarrow> holdings m' = holdings m)"
proof (cases "run w c")
  case (Inl e)
  then show ?thesis using assms by (simp add: state_after_def)
next
  case (Inr w')
  then show ?thesis using h_run [OF Inr assms] by (simp add: state_after_def)
qed

text \<open>The founder of the sample world, holding 499400 + 600, stakes 400.\<close>

theorem holdings_never_decrease_witness:
  "\<exists>m'. member_store
           (state_after (sample_world (sample_proposal 300 100) False)
              (run (sample_world (sample_proposal 300 100) False)
                 (StakeTokens (Signer (Account 1)) sample_treasury_address 400)))
           (Account 1) = Some m' \<and>
        holdings (sample_member 499400 600) \<le> holdings m' \<and>
        holdings m' = holdings (sample_member 499400 600)"
  using holdings_never_decrease [of "sample_world (sample_proposal 300 100) False" "Account 1"
      "sample_member 499400 600" "StakeTokens (Signer (Account 1)) sample_treasury_address 400"]
  by (simp add: sample_defs)

text \<open>The excepted case is real: the sender of a transfer of 50 goes from 500000 to 499950.\<close>

lemma transfer_sender_loses:
  "map_option holdings
     (member_store
        (state_after (sample_world (sample_proposal 300 100) False)
           (run (sample_world (sample_proposal 300 100) False)
              (TransferTokens (Signer (Account 1)) (Account 3) 50)))
        (Account 1)) = Some 499950"
  by (simp add: sample_defs run_defs holdings_def)

section \<open>The recorded token supply\<close>

text \<open>
  No step writes \<open>total_governance_tokens\<close>: whatever a treasury records, it records
  after any call and any history, from any world.
\<close>

lemma fr_initialize:
  "initialize_dao w s seed = Inr w' \<Longrightarrow> treasury_store w a = Some t \<Longrightarrow> treasury_store w' a = Some t"
  by (auto simp add: initialize_dao_def Let_def obs_simps split: if_splits)

lemma fr_join: "join_dao w s = Inr w' \<Longrightarrow> treasury_store w' = treasury_store w"
  by (auto simp add: join_dao_def Let_def obs_simps split: if_splits)

lemma fr_deposit:
  "deposit_funds w s t n = Inr w' \<Longrightarrow> supply_of w' = supply_of w"
  by (auto simp add: deposit_funds_def Let_def obs_simps supply_of_def fun_eq_iff
      split: option.splits sum.splits if_splits)

lemma fr_stake:
  "stake_tokens w s t n = Inr w' \<Longrightarrow> supply_of w' = supply_of w"
  by (auto simp add: stake_tokens_def Let_def obs_simps supply_of_def fun_eq_iff
      split: option.splits sum.splits if_splits)

lemma fr_transfer: "transfer_tokens w s r n = Inr w' \<Longrightarrow> treasury_store w' = treasury_store w"
  by (auto simp add: transfer_tokens_def Let_def obs_simps split: option.splits if_splits)

lemma fr_create:
  "create_investment_proposal w s t ti de c r n = Inr w' \<Longrightarrow> supply_of w' = supply_of w"
  by (auto simp add: create_investment_proposal_def Let_def obs_simps supply_of_def fun_eq_iff
      split: option.splits sum.splits if_splits)

lemma fr_vote:
  "vote_on_proposal w s t i v = Inr w' \<Longrightarrow> supply_of w' = supply_of w"
  by (auto simp add: vote_on_proposal_def Let_def obs_simps supply_of_def fun_eq_iff
      split: option.splits sum.splits if_splits)

lemma fr_execute:
  "execute_proposal w s t i = Inr w' \<Longrightarrow> supply_of w' = supply_of w"
  by (auto simp add: execute_proposal_def Let_def obs_simps supply_of_def fun_eq_iff
      split: option.splits sum.splits if_splits)

lemma fr_distribute:
  "distribute_tokens w s t r n re = Inr w' \<Longrightarrow> treasury_store w' = treasury_store w"
  by (auto simp add: distribute_tokens_def Let_def obs_simps split: option.splits if_splits)

lemma fr_pause:
  "emergency_pause w s t = Inr w' \<Longrightarrow> supply_of w' = supply_of w"
  by (auto simp add: emergency_pause_def Let_def obs_simps supply_of_def fun_eq_iff
      split: option.splits sum.splits if_splits)

lemma fr_unpause:
  "emergency_unpause w s t = Inr w' \<Longrightarrow> supply_of w' = supply_of w"
  by (auto simp add: emergency_unpause_def Let_def obs_simps supply_of_def fun_eq_iff
      split: option.splits sum.splits if_splits)

lemma fr_run:
  assumes "run w c = Inr w'" and "supply_of w a = Some n"
  shows "supply_of w' a = Some n"
proof (cases c)
  case (InitializeDao s seed)
  then show ?thesis using assms fr_initialize [of w s seed w' a]
    by (auto simp add: supply_of_def)
next
  case (JoinDao s)
  then show ?thesis using assms fr_join [of w s w'] by (simp add: supply_of_def)
next
  case (DepositFunds s t n)
  then show ?thesis using assms fr_deposit [of w s t n w'] by simp
next
  case (StakeTokens s t n)
  then show ?thesis using assms fr_stake [of w s t n w'] by simp
next
  case (TransferTokens s r n)
  then show ?thesis using assms fr_transfer [of w s r n w'] by (simp add: supply_of_def)
next
  case (CreateInvestmentProposal s t ti de ca r n)
  then show ?thesis using assms fr_create [of w s t ti de ca r n w'] by simp
next
  case (VoteOnProposal s t i v)
  then show ?thesis using assms fr_vote [of w s t i v w'] by simp
next
  case (ExecuteProposal s t i)
  then show ?thesis using assms fr_execute [of w s t i w'] by simp
next
  case (DistributeTokens s t r n re)
  then show ?thesis using assms fr_distribute [of w s t r n re w'] by (simp add: supply_of_def)
next
  case (EmergencyPause s t)
  then show ?thesis using assms fr_pause [of w s t w'] by simp
next
  case (EmergencyUnpause s t)
  then show ?thesis using assms fr_unpause [of w s t w'] by simp
qed

lemma fr_env: "env w e = Some w' \<Longrightarrow> treasury_store w' = treasury_store w"
  by (cases e) (auto split: if_splits sum.splits)

lemma fr_do_step:
  assumes "supply_of w a = Some n"
  shows "supply_of (do_step w s) a = Some n"
proof (cases s)
  case (Call c)
  then show ?thesis using assms fr_run [of w c _ a n]
    by (cases "run w c") (simp_all add: state_after_def)
next
  case (Env e)
  then show ?thesis using assms fr_env [of w e]
    by (cases "env w e") (simp_all add: supply_of_def)
qed

lemma fr_run_trace: "supply_of w a = Some n \<Longrightarrow> supply_of (run_trace w tr) a = Some n"
  by (induction tr arbitrary: w) (simp_all add: fr_do_step)

text \<open>So the worlds where every treasury records the initial supply are closed under steps.\<close>

lemma sf_supply_of:
  "supply_fixed w \<longleftrightarrow> (\<forall>a n. supply_of w a = Some n \<longrightarrow> n = INITIAL_TOKEN_SUPPLY)"
  by (auto simp add: supply_fixed_def supply_of_def)

lemma sf_initialize: "supply_fixed w \<Longrightarrow> initialize_dao w s seed = Inr w' \<Longrightarrow> supply_fixed w'"
  by (auto simp add: initialize_dao_def Let_def supply_fixed_def obs_simps split: if_splits)

lemma sf_run: 
  assumes "supply_fixed w" and "run w c = Inr w'" 
  shows "supply_fixed w'"
proof (cases c)
  case (InitializeDao s seed)
  then show ?thesis using assms sf_initialize [of w s seed w'] by simp
next
  case (JoinDao s)
  then show ?thesis using assms fr_join [of w s w'] by (simp add: supply_fixed_def)
next
  case (DepositFunds s t n)
  then show ?thesis using assms fr_deposit [of w s t n w'] by (simp add: sf_supply_of)
next
  case (StakeTokens s t n)
  then show ?thesis using assms fr_stake [of w s t n w'] by (simp add: sf_supply_of)
next
  case (TransferTokens s r n)
  then show ?thesis using assms fr_transfer [of w s r n w'] by (simp add: supply_fixed_def)
next
  case (CreateInvestmentProposal s t ti de ca r n)
  then show ?thesis using assms fr_create [of w s t ti de ca r n w'] by (simp add: sf_supply_of)
next
  case (VoteOnProposal s t i v)
  then show ?thesis using assms fr_vote [of w s t i v w'] by (simp add: sf_supply_of)
next
  case (ExecuteProposal s t i)
  then show ?thesis using assms fr_execute [of w s t i w'] by (simp add: sf_supply_of)
next
  case (DistributeTokens s t r n re)
  then show ?thesis using assms fr_distribute [of w s t r n re w'] by (simp add: supply_fixed_def)
next
  case (EmergencyPause s t)
  then show ?thesis using assms fr_pause [of w s t w'] by (simp add: sf_supply_of)
next
  case (EmergencyUnpause s t)
  then show ?thesis using assms fr_unpause [of w s t w'] by (simp add: sf_supply_of)
qed

lemma sf_do_step: "supply_fixed w \<Longrightarrow> supply_fixed (do_step w s)"
proof (cases s)
  case (Call c)
  assume "supply_fixed w"
  then show ?thesis using Call sf_run [of w c]
    by (cases "run w c") (simp_all add: state_after_def)
next
  case (Env e)
  assume "supply_fixed w"
  then show ?thesis using Env fr_env [of w e]
    by (cases "env w e") (simp_all add: supply_fixed_def)
qed

lemma sf_run_trace: "supply_fixed w \<Longrightarrow> supply_fixed (run_trace w tr)"
  by (induction tr arbitrary: w) (simp_all add: sf_do_step)

lemma sf_genesis: "supply_fixed genesis"
  by (simp add: supply_fixed_def genesis_def)

text \<open>
  Claim C10. In every world reachable from \<open>genesis\<close>, every treasury records
  \<open>total_governance_tokens = 1000000\<close>: \<open>initialize_dao\<close> writes the constant and
  nothing writes the field again (lemma \<open>fr_run_trace\<close>).
\<close>

theorem supply_record_constant:
  assumes "treasury_store (run_trace genesis tr) a = Some t"
  shows "total_governance_tokens t = INITIAL_TOKEN_SUPPLY"
  using sf_run_trace [OF sf_genesis, of tr] assms by (simp add: supply_fixed_def)

theorem supply_record_constant_witness:
  "supply_of (run_trace genesis shortfall_history) dao = Some 1000000"
proof -
  have "\<exists>t. treasury_store (run_trace genesis shortfall_history) dao = Some t"
    by (simp add: shortfall_history_def run_defs)
  then obtain t where t: "treasury_store (run_trace genesis shortfall_history) dao = Some t" ..
  show ?thesis using supply_record_constant [OF t] t by (simp add: supply_of_def)
qed

text \<open>
  The record does not follow the tokens issued: after the founder, as admin, distributes
  600000 tokens to their own record, that balance alone is 1100000, and the treasury still
  records 1000000. \<open>join_dao\<close> (100) and \<open>vote_on_proposal\<close> (10) credit balances
  the same way, by \<open>h_join\<close> and \<open>h_vote\<close> without touching any treasury field but
  the proposal voted on.
\<close>

lemma supply_not_tracking:
  "map_option (balance \<circ> governance_tokens)
     (member_store
        (run_trace genesis
           [Call (InitializeDao (Signer founder) []),
            Call (DistributeTokens (Signer founder) dao founder 600000 ''grant'')])
        founder) = Some 1100000 \<and>
   supply_of
     (run_trace genesis
        [Call (InitializeDao (Signer founder) []),
         Call (DistributeTokens (Signer founder) dao founder 600000 ''grant'')])
     dao = Some 1000000"
  by (simp add: run_defs supply_of_def)

end
